theory Spec2Isabelle
  imports Main "HOL-Library.Word"
begin

section \<open>JavaScript strings\<close>

text \<open>
  A JavaScript string is a sequence of 16-bit code units. The script in
  \<^verbatim>\<open>src/frontend/static/script.js\<close> uses four string methods:
  \<^verbatim>\<open>startsWith\<close>, \<^verbatim>\<open>includes\<close>, \<^verbatim>\<open>replace\<close> (with a string pattern) and
  \<^verbatim>\<open>trim\<close>. Each is written out below the way ECMAScript defines it.
\<close>

type_synonym jsstring = "16 word list"

text \<open>A literal of the source, given by its ASCII characters.\<close>

definition js :: "string \<Rightarrow> jsstring" where
  "js s = map of_char s"

text \<open>\<^verbatim>\<open>s.startsWith(p)\<close>: the code units of \<open>p\<close> are found in \<open>s\<close> from position 0.\<close>

fun startsWith :: "'a list \<Rightarrow> 'a list \<Rightarrow> bool" where
  "startsWith s [] = True"
| "startsWith [] (p # ps) = False"
| "startsWith (c # cs) (p # ps) = (c = p \<and> startsWith cs ps)"

text \<open>\<^verbatim>\<open>s.includes(p)\<close>: \<open>p\<close> is found in \<open>s\<close> from some position.\<close>

fun includesStr :: "'a list \<Rightarrow> 'a list \<Rightarrow> bool" where
  "includesStr [] p = (p = [])"
| "includesStr (c # cs) p = (startsWith (c # cs) p \<or> includesStr cs p)"

text \<open>
  \<^verbatim>\<open>s.replace(pat, rep)\<close> with a string pattern: only the first occurrence of
  \<open>pat\<close> is replaced, and a string without the pattern is returned as it is.
  The script's only call passes the replacement \<^verbatim>\<open>""\<close>, so the \<^verbatim>\<open>$\<close> patterns
  of a replacement string play no role and are not modelled.
\<close>

fun replace :: "'a list \<Rightarrow> 'a list \<Rightarrow> 'a list \<Rightarrow> 'a list" where
  "replace [] pat rep = (if pat = [] then rep else [])"
| "replace (c # cs) pat rep =
     (if startsWith (c # cs) pat then rep @ drop (length pat) (c # cs)
      else c # replace cs pat rep)"

text \<open>
  The code units that \<^verbatim>\<open>trim\<close> strips: ECMAScript's WhiteSpace (TAB, VT, FF,
  ZWNBSP and the Unicode category Zs) and LineTerminator (LF, CR, LS, PS).
\<close>

definition is_whitespace :: "16 word \<Rightarrow> bool" where
  "is_whitespace c \<longleftrightarrow>
     c = 0x0009 \<or> c = 0x000A \<or> c = 0x000B \<or> c = 0x000C \<or> c = 0x000D \<or>
     c = 0x0020 \<or> c = 0x00A0 \<or> c = 0x1680 \<or> (0x2000 \<le> c \<and> c \<le> 0x200A) \<or>
     c = 0x2028 \<or> c = 0x2029 \<or> c = 0x202F \<or> c = 0x205F \<or> c = 0x3000 \<or>
     c = 0xFEFF"

text \<open>\<^verbatim>\<open>s.trim()\<close>: the leading and the trailing white space are removed.\<close>

definition trim :: "jsstring \<Rightarrow> jsstring" where
  "trim s = rev (dropWhile is_whitespace (rev (dropWhile is_whitespace s)))"

text \<open>A string is blank when it is empty or holds white space only.\<close>

definition blank :: "jsstring \<Rightarrow> bool" where
  "blank s \<longleftrightarrow> list_all is_whitespace s"

section \<open>The page: document, connection and globals\<close>

text \<open>
  The script reads and writes the elements of the page through
  \<^verbatim>\<open>document.getElementById\<close>, which returns \<^verbatim>\<open>null\<close> for an id that the
  document does not have; reading a property of \<^verbatim>\<open>null\<close> throws a
  \<^verbatim>\<open>TypeError\<close>. The document is therefore a partial map from ids to elements,
  and every function that can throw returns a completion together with the state it has
  reached: what was written before the throw stays written.
\<close>

datatype error = TypeError | InvalidStateError | RendererError

datatype 'a completion = Normal 'a | Throw error

text \<open>The \<^verbatim>\<open>div\<close> that the message handler creates for a progress line.\<close>

record message_element =
  className :: jsstring
  textContent :: jsstring

text \<open>
  An element, with the properties that the script touches: \<^verbatim>\<open>.value\<close>,
  \<^verbatim>\<open>.style.display\<close>, the markup last assigned to \<^verbatim>\<open>.innerHTML\<close>, and the
  children added by \<^verbatim>\<open>appendChild\<close> since then. Assigning \<^verbatim>\<open>innerHTML\<close> removes
  the children.
\<close>

record element =
  elem_value :: jsstring
  display :: jsstring
  innerHTML :: jsstring
  children :: "message_element list"

text \<open>
  A \<^verbatim>\<open>WebSocket\<close> object: its \<^verbatim>\<open>readyState\<close> and the messages handed to the
  transport. By the WebSocket interface \<^verbatim>\<open>send\<close> throws an
  \<^verbatim>\<open>InvalidStateError\<close> while the socket is connecting, transmits when it is open,
  and discards the data without throwing when it is closing or closed.
\<close>

datatype ready_state = CONNECTING | OPEN | CLOSING | CLOSED

record websocket =
  url :: jsstring
  readyState :: ready_state
  sent :: "jsstring list"

definition new_WebSocket :: "jsstring \<Rightarrow> websocket" where
  "new_WebSocket u = \<lparr>url = u, readyState = CONNECTING, sent = []\<rparr>"

fun ws_send :: "websocket \<Rightarrow> jsstring \<Rightarrow> websocket completion" where
  "ws_send w data =
     (case readyState w of
        CONNECTING \<Rightarrow> Throw InvalidStateError
      | OPEN \<Rightarrow> Normal (w\<lparr>sent := sent w @ [data]\<rparr>)
      | CLOSING \<Rightarrow> Normal w
      | CLOSED \<Rightarrow> Normal w)"

text \<open>
  The state of the page. \<open>ws\<close> and \<open>currentMarkdownContent\<close> are the two globals of
  the script (\<open>ws\<close> is \<^verbatim>\<open>undefined\<close> until the first connection). A socket that a
  later \<^verbatim>\<open>startPlanning\<close> replaces in \<open>ws\<close> is not closed by the script; it
  is kept in \<open>previous\<close>. \<open>alerts\<close> records the calls of \<^verbatim>\<open>alert\<close>.
\<close>

record page =
  doc :: "string \<rightharpoonup> element"
  ws :: "websocket option"
  previous :: "websocket list"
  currentMarkdownContent :: jsstring
  alerts :: "jsstring list"

definition load :: "(string \<rightharpoonup> element) \<Rightarrow> page" where
  "load d = \<lparr>doc = d, ws = None, previous = [], currentMarkdownContent = [], alerts = []\<rparr>"

definition getElementById :: "page \<Rightarrow> string \<Rightarrow> element option" where
  "getElementById s i = doc s i"

definition setElement :: "string \<Rightarrow> element \<Rightarrow> page \<Rightarrow> page" where
  "setElement i e s = s\<lparr>doc := (doc s)(i \<mapsto> e)\<rparr>"

definition alert :: "jsstring \<Rightarrow> page \<Rightarrow> page" where
  "alert msg s = s\<lparr>alerts := alerts s @ [msg]\<rparr>"

subsection \<open>validateInputs\<close>

text \<open>
  \<^verbatim>\<open>
  const destination = document.getElementById("destination").value.trim();
  const travelDate = document.getElementById("travelDate").value.trim();
  if (!destination) { alert("Please enter a destination"); return false; }
  if (!travelDate) { alert("Please enter a travel date"); return false; }
  return true;
  \<close>
  A string is falsy exactly when it is empty.
\<close>

definition validateInputs :: "page \<Rightarrow> bool completion \<times> page" where
  "validateInputs s =
     (case getElementById s ''destination'' of
        None \<Rightarrow> (Throw TypeError, s)
      | Some d \<Rightarrow>
          (case getElementById s ''travelDate'' of
             None \<Rightarrow> (Throw TypeError, s)
           | Some t \<Rightarrow>
               let destination = trim (elem_value d);
                   travelDate = trim (elem_value t)
               in if destination = [] then
                    (Normal False, alert (js ''Please enter a destination'') s)
                  else if travelDate = [] then
                    (Normal False, alert (js ''Please enter a travel date'') s)
                  else (Normal True, s)))"

subsection \<open>startPlanning\<close>

definition WS_URL :: jsstring where
  "WS_URL = js ''ws://127.0.0.1:5000/ws''"

text \<open>
  The four elements are looked up first and dereferenced in the order
  \<^verbatim>\<open>progress\<close>, \<^verbatim>\<open>itinerary\<close>, \<^verbatim>\<open>option-selection\<close>, \<^verbatim>\<open>copyButton\<close>; the first
  missing one throws, after the writes before it. Then the global
  \<open>currentMarkdownContent\<close> is emptied and the socket is created; the constructor
  is given a well-formed constant URL and returns. The handler assigned to
  \<^verbatim>\<open>ws.onmessage\<close> is \<open>onmessage\<close> below, the same for every socket.
\<close>

definition startPlanning :: "page \<Rightarrow> unit completion \<times> page" where
  "startPlanning s0 =
     (let (valid, s) = validateInputs s0 in
      case valid of
        Throw e \<Rightarrow> (Throw e, s)
      | Normal ok \<Rightarrow>
          if \<not> ok then (Normal (), s)
          else
            (case getElementById s ''progress'' of
               None \<Rightarrow> (Throw TypeError, s)
             | Some progressDiv \<Rightarrow>
                 let s = setElement ''progress''
                           (progressDiv\<lparr>innerHTML := [], children := []\<rparr>) s
                 in
                 (case getElementById s ''itinerary'' of
                    None \<Rightarrow> (Throw TypeError, s)
                  | Some itineraryDiv \<Rightarrow>
                      let s = setElement ''itinerary''
                                (itineraryDiv\<lparr>innerHTML := [], children := []\<rparr>) s
                      in
                      (case getElementById s ''option-selection'' of
                         None \<Rightarrow> (Throw TypeError, s)
                       | Some optionSelectionDiv \<Rightarrow>
                           let s = setElement ''option-selection''
                                     (optionSelectionDiv\<lparr>display := js ''none''\<rparr>) s
                           in
                           (case getElementById s ''copyButton'' of
                              None \<Rightarrow> (Throw TypeError, s)
                            | Some copyButton \<Rightarrow>
                                let s = setElement ''copyButton''
                                          (copyButton\<lparr>display := js ''none''\<rparr>) s;
                                    s = s\<lparr>currentMarkdownContent := []\<rparr>;
                                    s = s\<lparr>previous := previous s @
                                                (case ws s of None \<Rightarrow> [] | Some old \<Rightarrow> [old]),
                                           ws := Some (new_WebSocket WS_URL)\<rparr>
                                in (Normal (), s))))))"

subsection \<open>The handler of inbound messages\<close>

definition PROMPT :: jsstring where
  "PROMPT = js ''Please review the options and select the correct option''"

definition SENTINEL :: jsstring where
  "SENTINEL = js ''Itinerary generated successfully!''"

text \<open>
  The handler is a closure over the four element objects that \<^verbatim>\<open>startPlanning\<close>
  has already dereferenced, so inside the handler they are never \<^verbatim>\<open>null\<close>. The
  script never adds, removes or renames an element that has an id, so the element an
  id names is the same one for the life of the page, and the model reaches it by its id.
\<close>

definition updateElement :: "string \<Rightarrow> (element \<Rightarrow> element) \<Rightarrow> page \<Rightarrow> page" where
  "updateElement i f s = s\<lparr>doc := (\<lambda>j. if j = i then map_option f (doc s j) else doc s j)\<rparr>"

text \<open>
  \<^verbatim>\<open>
  const message = event.data;
  if (message.includes("Please review the options and select the correct option")) {
      optionSelectionDiv.style.display = "block";
  }
  if (message.startsWith("Itinerary generated successfully!")) {
      currentMarkdownContent = message.replace("Itinerary generated successfully!", "").trim();
      itineraryDiv.innerHTML = marked.parse(currentMarkdownContent);
      copyButton.style.display = "block";
  } else {
      const messageElement = document.createElement("div");
      messageElement.className = "progress-message";
      messageElement.textContent = message;
      progressDiv.appendChild(messageElement);
  }
  \<close>
  \<^verbatim>\<open>event.data\<close> of a text message is a string. \<^verbatim>\<open>marked.parse\<close> belongs to
  an external library; it is a parameter, \<open>None\<close> where it throws. The scrolling
  requested at the end of the handler changes no data and is left out.
\<close>

definition onmessage ::
  "(jsstring \<Rightarrow> jsstring option) \<Rightarrow> jsstring \<Rightarrow> page \<Rightarrow> unit completion \<times> page" where
  "onmessage marked_parse message s0 =
     (let s = (if includesStr message PROMPT
               then updateElement ''option-selection'' (\<lambda>e. e\<lparr>display := js ''block''\<rparr>) s0
               else s0)
      in
      if startsWith message SENTINEL then
        let s = s\<lparr>currentMarkdownContent := trim (replace message SENTINEL [])\<rparr> in
        (case marked_parse (currentMarkdownContent s) of
           None \<Rightarrow> (Throw RendererError, s)
         | Some html \<Rightarrow>
             let s = updateElement ''itinerary''
                       (\<lambda>e. e\<lparr>innerHTML := html, children := []\<rparr>) s;
                 s = updateElement ''copyButton'' (\<lambda>e. e\<lparr>display := js ''block''\<rparr>) s
             in (Normal (), s))
      else
        let messageElement = \<lparr>className = js ''progress-message'', textContent = message\<rparr>;
            s = updateElement ''progress''
                  (\<lambda>e. e\<lparr>children := children e @ [messageElement]\<rparr>) s
        in (Normal (), s))"

text \<open>
  The browser calls the handler once for each message, in arrival order; an exception
  thrown by the handler is reported and does not stop later deliveries.
\<close>

fun deliver :: "(jsstring \<Rightarrow> jsstring option) \<Rightarrow> jsstring list \<Rightarrow> page \<Rightarrow> page" where
  "deliver marked_parse [] s = s"
| "deliver marked_parse (m # ms) s = deliver marked_parse ms (snd (onmessage marked_parse m s))"

subsection \<open>submitClusterSelection\<close>

text \<open>
  \<^verbatim>\<open>
  const clusterSelection = document.getElementById("cluster-input").value;
  if (ws && clusterSelection) {
      ws.send(clusterSelection);
      document.getElementById("cluster-selection").style.display = "none";
      document.getElementById("cluster-input").value = "";
  }
  \<close>
  \<open>ws\<close> is falsy only while it is \<^verbatim>\<open>undefined\<close>.
\<close>

definition submitClusterSelection :: "page \<Rightarrow> unit completion \<times> page" where
  "submitClusterSelection s =
     (case getElementById s ''cluster-input'' of
        None \<Rightarrow> (Throw TypeError, s)
      | Some clusterInput \<Rightarrow>
          let clusterSelection = elem_value clusterInput in
          (case ws s of
             None \<Rightarrow> (Normal (), s)
           | Some w \<Rightarrow>
               if clusterSelection = [] then (Normal (), s)
               else
                 (case ws_send w clusterSelection of
                    Throw e \<Rightarrow> (Throw e, s)
                  | Normal w' \<Rightarrow>
                      let s = s\<lparr>ws := Some w'\<rparr> in
                      (case getElementById s ''cluster-selection'' of
                         None \<Rightarrow> (Throw TypeError, s)
                       | Some sel \<Rightarrow>
                           let s = setElement ''cluster-selection''
                                     (sel\<lparr>display := js ''none''\<rparr>) s
                           in
                           (case getElementById s ''cluster-input'' of
                              None \<Rightarrow> (Throw TypeError, s)
                            | Some inp \<Rightarrow>
                                (Normal (),
                                 setElement ''cluster-input'' (inp\<lparr>elem_value := []\<rparr>) s))))))"

subsection \<open>What a caller observes\<close>

text \<open>
  The progress log is the text of the children of the \<^verbatim>\<open>progress\<close> element, the
  final content is the global \<open>currentMarkdownContent\<close> (empty while unset), a
  selection is pending while the \<^verbatim>\<open>option-selection\<close> element is displayed, and
  the outbound messages are those sent on any socket of the page.
\<close>

definition progress_log :: "page \<Rightarrow> jsstring list" where
  "progress_log s =
     (case doc s ''progress'' of None \<Rightarrow> [] | Some p \<Rightarrow> map textContent (children p))"

definition pending_selection :: "page \<Rightarrow> bool" where
  "pending_selection s =
     (case doc s ''option-selection'' of None \<Rightarrow> False | Some e \<Rightarrow> display e = js ''block'')"

definition outbound :: "page \<Rightarrow> jsstring list" where
  "outbound s =
     concat (map sent (previous s)) @ (case ws s of None \<Rightarrow> [] | Some w \<Rightarrow> sent w)"

definition connections :: "page \<Rightarrow> nat" where
  "connections s = length (previous s) + (case ws s of None \<Rightarrow> 0 | Some w \<Rightarrow> 1)"

text \<open>
  The handler exists once \<^verbatim>\<open>startPlanning\<close> has created a socket, and then the
  four elements it closes over exist.
\<close>

definition handler_installed :: "page \<Rightarrow> bool" where
  "handler_installed s \<longleftrightarrow>
     ws s \<noteq> None \<and> doc s ''progress'' \<noteq> None \<and> doc s ''itinerary'' \<noteq> None \<and>
     doc s ''option-selection'' \<noteq> None \<and> doc s ''copyButton'' \<noteq> None"

subsection \<open>The environment, for concrete runs\<close>

text \<open>The user types into an input; the browser opens the current socket.\<close>

definition type_into :: "string \<Rightarrow> jsstring \<Rightarrow> page \<Rightarrow> page" where
  "type_into i v s = updateElement i (\<lambda>e. e\<lparr>elem_value := v\<rparr>) s"

definition socket_opened :: "page \<Rightarrow> page" where
  "socket_opened s = s\<lparr>ws := map_option (\<lambda>w. w\<lparr>readyState := OPEN\<rparr>) (ws s)\<rparr>"

definition plain_element :: element where
  "plain_element = \<lparr>elem_value = [], display = [], innerHTML = [], children = []\<rparr>"

definition hidden_element :: element where
  "hidden_element = plain_element\<lparr>display := js ''none''\<rparr>"

text \<open>A document with the eight ids that the script looks up.\<close>

definition script_document :: "string \<rightharpoonup> element" where
  "script_document =
     map_of [(''destination'', plain_element), (''travelDate'', plain_element),
             (''progress'', plain_element), (''itinerary'', plain_element),
             (''option-selection'', hidden_element), (''copyButton'', hidden_element),
             (''cluster-input'', plain_element), (''cluster-selection'', hidden_element)]"

text \<open>
  The ids of \<^verbatim>\<open>src/frontend/templates/index.html\<close>. It has no element with the id
  \<^verbatim>\<open>itinerary\<close>, \<^verbatim>\<open>copyButton\<close>, \<^verbatim>\<open>cluster-input\<close> or \<^verbatim>\<open>cluster-selection\<close>.
\<close>

definition index_html :: "string \<rightharpoonup> element" where
  "index_html =
     map_of [(''destination'', plain_element), (''travelDate'', plain_element),
             (''outputFormat'', plain_element\<lparr>elem_value := js ''pdf''\<rparr>),
             (''option-selection'', hidden_element), (''option-input'', plain_element),
             (''progress'', plain_element)]"

text \<open>A stand-in for the Markdown renderer in concrete runs: it returns its input.\<close>

definition plain_renderer :: "jsstring \<Rightarrow> jsstring option" where
  "plain_renderer src = Some src"

text \<open>
  A session in progress: both inputs filled in, \<^verbatim>\<open>startPlanning\<close> called, the
  socket open.
\<close>

definition planning_page :: page where
  "planning_page =
     socket_opened (snd (startPlanning
       (type_into ''travelDate'' (js ''2024-06-01'')
         (type_into ''destination'' (js ''Paris'') (load script_document)))))"

text \<open>Inbound lines and the pages reached by delivering them, for concrete runs.\<close>

definition prompt_line :: jsstring where
  "prompt_line =
     js ''Please review the options and select the correct option: 1) Hotel A 2) Hotel B''"

definition terminal_line :: jsstring where
  "terminal_line = js ''Itinerary generated successfully! # Paris Trip''"

definition terminal_prompt_line :: jsstring where
  "terminal_prompt_line =
     js ''Itinerary generated successfully! Please review the options and select the correct option''"

definition awaiting_page :: page where
  "awaiting_page = deliver plain_renderer [js ''Searching flights...'', prompt_line] planning_page"

definition completed_page :: page where
  "completed_page = deliver plain_renderer [terminal_line] awaiting_page"

section \<open>Properties of the string methods\<close>



lemma startsWith_append: "startsWith s p \<longleftrightarrow> (\<exists>r. s = p @ r)"
  by (induction s p rule: startsWith.induct) auto

lemma startsWith_take: "startsWith s p \<longleftrightarrow> take (length p) s = p"
  by (induction s p rule: startsWith.induct) auto

lemma includesStr_append: "includesStr s p \<longleftrightarrow> (\<exists>a b. s = a @ p @ b)"
proof (induction s)
  case Nil
  then show ?case by auto
next
  case (Cons c cs)
  show ?case
  proof
    assume "includesStr (c # cs) p"
    then consider "startsWith (c # cs) p" | "includesStr cs p" by auto
    then show "\<exists>a b. c # cs = a @ p @ b"
    proof cases
      case 1
      then obtain r where "c # cs = p @ r" by (auto simp: startsWith_append)
      then have "c # cs = [] @ p @ r" by simp
      then show ?thesis by blast
    next
      case 2
      then obtain a b where "cs = a @ p @ b" using Cons.IH by auto
      then have "c # cs = (c # a) @ p @ b" by simp
      then show ?thesis by blast
    qed
  next
    assume "\<exists>a b. c # cs = a @ p @ b"
    then obtain a b where ab: "c # cs = a @ p @ b" by auto
    show "includesStr (c # cs) p"
    proof (cases a)
      case Nil
      with ab have "startsWith (c # cs) p" by (auto simp: startsWith_append)
      then show ?thesis by simp
    next
      case (Cons x xs)
      with ab have "cs = xs @ p @ b" by simp
      then have "includesStr cs p" using Cons.IH by auto
      then show ?thesis by simp
    qed
  qed
qed

lemma replace_at_start:
  "startsWith s pat \<Longrightarrow> replace s pat rep = rep @ drop (length pat) s"
  by (cases s; cases pat) auto

lemma replace_absent: "\<not> includesStr s pat \<Longrightarrow> replace s pat rep = s"
  by (induction s) auto

lemma dropWhile_all: "dropWhile P s = [] \<longleftrightarrow> list_all P s"
  by (simp add: list_all_iff)

lemma dropWhile_rev_empty:
  "dropWhile P (rev (dropWhile P s)) = [] \<longleftrightarrow> list_all P s"
proof (cases "dropWhile P s = []")
  case True
  then have "list_all P s" using dropWhile_all [of P s] by blast
  moreover have "dropWhile P (rev (dropWhile P s)) = []"
    unfolding True by simp
  ultimately show ?thesis by simp
next
  case False
  then have "\<not> P (hd (dropWhile P s))" by (rule hd_dropWhile)
  moreover have "hd (dropWhile P s) \<in> set (rev (dropWhile P s))"
    using False by simp
  ultimately have "dropWhile P (rev (dropWhile P s)) \<noteq> []"
    unfolding dropWhile_eq_Nil_conv by blast
  moreover from False have "\<not> list_all P s" using dropWhile_all [of P s] by blast
  ultimately show ?thesis by blast
qed

lemma trim_split:
  "dropWhile P s =
     rev (dropWhile P (rev (dropWhile P s))) @ rev (takeWhile P (rev (dropWhile P s)))"
proof -
  have "rev (rev (dropWhile P s)) =
          rev (takeWhile P (rev (dropWhile P s)) @ dropWhile P (rev (dropWhile P s)))"
    unfolding takeWhile_dropWhile_id ..
  then show ?thesis unfolding rev_append rev_rev_ident .
qed

lemma all_takeWhile: "list_all P (takeWhile P s)"
  unfolding list_all_iff by (blast dest: set_takeWhileD)

lemma trim_empty_iff: "trim s = [] \<longleftrightarrow> blank s"
  unfolding trim_def blank_def rev_is_Nil_conv by (rule dropWhile_rev_empty)

lemma trim_within: "\<exists>a b. s = a @ trim s @ b \<and> blank a \<and> blank b"
proof -
  let ?P = is_whitespace
  let ?t = "dropWhile ?P s"
  have "s = takeWhile ?P s @ ?t" by simp
  also have "?t = trim s @ rev (takeWhile ?P (rev ?t))"
    unfolding trim_def by (rule trim_split)
  finally have "s = takeWhile ?P s @ trim s @ rev (takeWhile ?P (rev ?t))" .
  moreover have "blank (takeWhile ?P s)"
    unfolding blank_def by (rule all_takeWhile)
  moreover have "blank (rev (takeWhile ?P (rev ?t)))"
    unfolding blank_def using all_takeWhile [of ?P "rev ?t"] by simp
  ultimately show ?thesis by blast
qed

lemma trim_ends:
  "trim s \<noteq> [] \<Longrightarrow> \<not> is_whitespace (hd (trim s)) \<and> \<not> is_whitespace (last (trim s))"
proof -
  assume ne: "trim s \<noteq> []"
  let ?P = is_whitespace
  let ?t = "dropWhile ?P s"
  let ?u = "dropWhile ?P (rev ?t)"
  from ne have u: "?u \<noteq> []" by (simp add: trim_def)
  then have "\<not> ?P (hd ?u)" by (rule hd_dropWhile)
  then have l: "\<not> ?P (last (trim s))" using u by (simp add: trim_def last_rev)
  have t: "?t \<noteq> []"
  proof
    assume e: "?t = []"
    have "?u = []" unfolding e by simp
    with u show False by blast
  qed
  then have ht: "\<not> ?P (hd ?t)" by (rule hd_dropWhile)
  have "rev ?t = takeWhile ?P (rev ?t) @ ?u" by simp
  then have "last (rev ?t) = last ?u" using u by (metis last_appendR)
  then have "hd ?t = last ?u" using t by (simp add: last_rev)
  then have "hd (trim s) = hd ?t" using u by (simp add: trim_def hd_rev)
  with ht l show ?thesis by simp
qed

section \<open>The message handler, observable by observable\<close>

text \<open>
  What one call of the handler does to each observable, for every message and every
  behaviour of the renderer.
\<close>

lemma onmessage_content:
  "currentMarkdownContent (snd (onmessage mp m s)) =
     (if startsWith m SENTINEL then trim (drop (length SENTINEL) m)
      else currentMarkdownContent s)"
  by (simp add: onmessage_def updateElement_def Let_def replace_at_start split: option.splits)

lemma onmessage_log:
  "doc s ''progress'' \<noteq> None \<Longrightarrow>
   progress_log (snd (onmessage mp m s)) =
     (if startsWith m SENTINEL then progress_log s else progress_log s @ [m])"
  by (auto simp add: onmessage_def updateElement_def progress_log_def Let_def split: option.splits)

lemma onmessage_pending:
  "doc s ''option-selection'' \<noteq> None \<Longrightarrow>
   pending_selection (snd (onmessage mp m s)) \<longleftrightarrow>
     includesStr m PROMPT \<or> pending_selection s"
  by (auto simp add: onmessage_def updateElement_def pending_selection_def Let_def split: option.splits)

lemma onmessage_sockets:
  "ws (snd (onmessage mp m s)) = ws s \<and> previous (snd (onmessage mp m s)) = previous s"
  by (simp add: onmessage_def updateElement_def Let_def split: option.splits)

lemma onmessage_ids:
  "doc (snd (onmessage mp m s)) i = None \<longleftrightarrow> doc s i = None"
  by (simp add: onmessage_def updateElement_def Let_def split: option.splits)

lemma onmessage_installed:
  "handler_installed s \<Longrightarrow> handler_installed (snd (onmessage mp m s))"
  by (simp add: handler_installed_def onmessage_ids onmessage_sockets)

lemma onmessage_completion:
  "fst (onmessage mp m s) =
     (if startsWith m SENTINEL \<and> mp (trim (drop (length SENTINEL) m)) = None
      then Throw RendererError else Normal ())"
  by (simp add: onmessage_def updateElement_def Let_def replace_at_start split: option.splits)

lemma deliver_nonterminal:
  "handler_installed s \<Longrightarrow> list_all (\<lambda>m. \<not> startsWith m SENTINEL) ms \<Longrightarrow>
   currentMarkdownContent (deliver mp ms s) = currentMarkdownContent s \<and>
   progress_log (deliver mp ms s) = progress_log s @ ms \<and>
   handler_installed (deliver mp ms s)"
proof (induction ms arbitrary: s)
  case Nil
  then show ?case by simp
next
  case (Cons m ms)
  let ?s = "snd (onmessage mp m s)"
  from Cons.prems have inst: "handler_installed ?s" by (simp add: onmessage_installed)
  from Cons.prems have step: "currentMarkdownContent ?s = currentMarkdownContent s"
    "progress_log ?s = progress_log s @ [m]"
    by (simp_all add: handler_installed_def onmessage_content onmessage_log)
  from Cons.prems have "list_all (\<lambda>m. \<not> startsWith m SENTINEL) ms" by simp
  from Cons.IH [OF inst this] step show ?case by simp
qed

lemma deliver_append: "deliver mp (xs @ ys) s = deliver mp ys (deliver mp xs s)"
  by (induction xs arbitrary: s) simp_all

section \<open>The functions called by the page\<close>

lemma validateInputs_blank:
  assumes "doc s ''destination'' = Some d" and "doc s ''travelDate'' = Some t"
  shows "validateInputs s =
     (if blank (elem_value d) then (Normal False, alert (js ''Please enter a destination'') s)
      else if blank (elem_value t) then (Normal False, alert (js ''Please enter a travel date'') s)
      else (Normal True, s))"
  using assms by (simp add: validateInputs_def getElementById_def Let_def trim_empty_iff)

text \<open>
  No function of the script removes an element, and the handler stays installed: the
  elements it closes over exist in every state a session can reach after a successful
  \<^verbatim>\<open>startPlanning\<close>.
\<close>

lemma startPlanning_ids:
  "doc (snd (startPlanning s)) i = None \<longleftrightarrow> doc s i = None"
  by (auto simp add: startPlanning_def validateInputs_def getElementById_def setElement_def
      alert_def Let_def split: option.splits if_splits)

lemma startPlanning_installed:
  "handler_installed s \<Longrightarrow> handler_installed (snd (startPlanning s))"
  unfolding handler_installed_def startPlanning_ids
  by (auto simp add: startPlanning_def validateInputs_def getElementById_def setElement_def
      alert_def Let_def split: option.splits if_splits)

lemma startPlanning_installs:
  "connections (snd (startPlanning s)) \<noteq> connections s \<Longrightarrow>
   fst (startPlanning s) = Normal () \<and> handler_installed (snd (startPlanning s))"
  unfolding handler_installed_def startPlanning_ids
  by (auto simp add: startPlanning_def validateInputs_def getElementById_def setElement_def
      alert_def connections_def Let_def split: option.splits if_splits)

lemma submitClusterSelection_installed:
  "handler_installed s \<Longrightarrow> handler_installed (snd (submitClusterSelection s))"
  by (auto simp add: handler_installed_def submitClusterSelection_def getElementById_def
      setElement_def Let_def split: option.splits if_splits completion.splits ready_state.splits)

subsection \<open>The template of the repository\<close>

text \<open>
  With a document that lacks \<^verbatim>\<open>itinerary\<close>, \<^verbatim>\<open>startPlanning\<close> throws before it
  creates a socket, and without \<^verbatim>\<open>cluster-input\<close> \<^verbatim>\<open>submitClusterSelection\<close> throws
  at its first line. \<^verbatim>\<open>index.html\<close> is such a document.
\<close>

lemma submitClusterSelection_without_input:
  "doc s ''cluster-input'' = None \<Longrightarrow> submitClusterSelection s = (Throw TypeError, s)"
  by (simp add: submitClusterSelection_def getElementById_def)

lemma startPlanning_without_itinerary:
  assumes "doc s ''destination'' = Some d" and "doc s ''travelDate'' = Some t"
    and "\<not> blank (elem_value d)" and "\<not> blank (elem_value t)"
    and "doc s ''itinerary'' = None"
  shows "fst (startPlanning s) = Throw TypeError \<and>
         ws (snd (startPlanning s)) = ws s \<and> previous (snd (startPlanning s)) = previous s"
  using assms
  by (auto simp add: startPlanning_def validateInputs_def getElementById_def setElement_def
      trim_empty_iff Let_def split: option.splits)

lemma index_html_lacks:
  "index_html ''itinerary'' = None \<and> index_html ''copyButton'' = None \<and>
   index_html ''cluster-input'' = None \<and> index_html ''cluster-selection'' = None"
  by (simp add: index_html_def)

lemma index_html_startPlanning:
  "fst (startPlanning (type_into ''travelDate'' (js ''2024-06-01'')
          (type_into ''destination'' (js ''Paris'') (load index_html)))) = Throw TypeError \<and>
   connections (snd (startPlanning (type_into ''travelDate'' (js ''2024-06-01'')
          (type_into ''destination'' (js ''Paris'') (load index_html))))) = 0"
  by (simp add: startPlanning_def validateInputs_def getElementById_def setElement_def
      type_into_def updateElement_def load_def index_html_def plain_element_def
      hidden_element_def connections_def trim_def is_whitespace_def js_def Let_def)

section \<open>Concrete runs\<close>

lemmas run_defs = load_def getElementById_def setElement_def alert_def validateInputs_def
  startPlanning_def updateElement_def type_into_def socket_opened_def plain_element_def
  hidden_element_def script_document_def new_WebSocket_def planning_page_def onmessage_def
  submitClusterSelection_def plain_renderer_def progress_log_def pending_selection_def
  outbound_def connections_def handler_installed_def trim_def is_whitespace_def js_def
  Let_def SENTINEL_def PROMPT_def WS_URL_def awaiting_page_def completed_page_def
  prompt_line_def terminal_line_def terminal_prompt_line_def

lemma planning_page_installed: "handler_installed planning_page"
  by (simp add: run_defs)

lemma planning_page_observed:
  "progress_log planning_page = [] \<and> \<not> pending_selection planning_page \<and>
   currentMarkdownContent planning_page = [] \<and> outbound planning_page = [] \<and>
   connections planning_page = 1"
  by (simp add: run_defs)

lemma awaiting_page_installed: "handler_installed awaiting_page"
  unfolding awaiting_page_def
  by (simp add: onmessage_installed planning_page_installed)

section \<open>The claims\<close>

text \<open>
  Claim C1. A line is handled as the terminal payload exactly when it begins with the
  sentinel: the lines that are not appended to the progress log are those that start
  with \<open>SENTINEL\<close>. For such a line the final content becomes the rest of
  the line after the sentinel, trimmed. Any other line, also one that has the sentinel
  further in, leaves the final content as it was and is appended to the log.
\<close>

theorem terminal_iff_sentinel_prefix:
  assumes "handler_installed s"
  shows "(progress_log (snd (onmessage mp L s)) = progress_log s \<longleftrightarrow> startsWith L SENTINEL) \<and>
         (startsWith L SENTINEL \<longrightarrow>
            currentMarkdownContent (snd (onmessage mp L s)) = trim (drop (length SENTINEL) L)) \<and>
         (\<not> startsWith L SENTINEL \<longrightarrow>
            currentMarkdownContent (snd (onmessage mp L s)) = currentMarkdownContent s \<and>
            progress_log (snd (onmessage mp L s)) = progress_log s @ [L])"
  using assms by (simp add: handler_installed_def onmessage_content onmessage_log)

theorem terminal_iff_sentinel_prefix_witness:
  "handler_installed planning_page \<and>
   startsWith (js ''Itinerary generated successfully!ABC'') SENTINEL \<and>
   currentMarkdownContent
     (snd (onmessage plain_renderer (js ''Itinerary generated successfully!ABC'') planning_page))
     = js ''ABC'' \<and>
   \<not> startsWith (js ''xItinerary generated successfully!ABC'') SENTINEL \<and>
   progress_log
     (snd (onmessage plain_renderer (js ''xItinerary generated successfully!ABC'') planning_page))
     = [js ''xItinerary generated successfully!ABC'']"
proof -
  have a: "startsWith (js ''Itinerary generated successfully!ABC'') SENTINEL"
    and b: "\<not> startsWith (js ''xItinerary generated successfully!ABC'') SENTINEL"
    and c: "trim (drop (length SENTINEL) (js ''Itinerary generated successfully!ABC'')) = js ''ABC''"
    by (simp_all add: SENTINEL_def js_def trim_def is_whitespace_def)
  show ?thesis
    using terminal_iff_sentinel_prefix [OF planning_page_installed, of plain_renderer
        "js ''Itinerary generated successfully!ABC''"]
      terminal_iff_sentinel_prefix [OF planning_page_installed, of plain_renderer
        "js ''xItinerary generated successfully!ABC''"]
      a b c planning_page_installed planning_page_observed
    by simp
qed

text \<open>
  Claim C2, as the code has it. The handler tests for the prompt text first and
  independently of the sentinel. A line that begins with the sentinel and contains the
  prompt text has both effects: the selection box is shown, the final content is set to
  the trimmed rest of the line, and the line is not appended to the progress log.
\<close>

theorem terminal_with_prompt_has_both_effects:
  assumes "handler_installed s" and "startsWith L SENTINEL" and "includesStr L PROMPT"
  shows "pending_selection (snd (onmessage mp L s)) \<and>
         currentMarkdownContent (snd (onmessage mp L s)) = trim (drop (length SENTINEL) L) \<and>
         progress_log (snd (onmessage mp L s)) = progress_log s"
  using assms by (simp add: handler_installed_def onmessage_pending onmessage_log onmessage_content)

theorem terminal_with_prompt_has_both_effects_witness:
  "handler_installed planning_page \<and> startsWith terminal_prompt_line SENTINEL \<and>
   includesStr terminal_prompt_line PROMPT \<and>
   pending_selection (snd (onmessage plain_renderer terminal_prompt_line planning_page)) \<and>
   currentMarkdownContent (snd (onmessage plain_renderer terminal_prompt_line planning_page))
     = PROMPT \<and>
   progress_log (snd (onmessage plain_renderer terminal_prompt_line planning_page)) = []"
proof -
  have a: "startsWith terminal_prompt_line SENTINEL"
    and b: "includesStr terminal_prompt_line PROMPT"
    and c: "trim (drop (length SENTINEL) terminal_prompt_line) = PROMPT"
    by (simp_all add: terminal_prompt_line_def SENTINEL_def PROMPT_def js_def trim_def
        is_whitespace_def)
  show ?thesis
    using terminal_with_prompt_has_both_effects [OF planning_page_installed a b, of plain_renderer]
      a b c planning_page_installed planning_page_observed
    by simp
qed

theorem terminal_precedence_counterexample:
  "startsWith terminal_prompt_line SENTINEL \<and> includesStr terminal_prompt_line PROMPT \<and>
   \<not> pending_selection planning_page \<and>
   pending_selection (snd (onmessage plain_renderer terminal_prompt_line planning_page))"
  by (simp add: run_defs)

text \<open>
  Claim C3, as the code has it. \<^verbatim>\<open>submitClusterSelection\<close> is guarded by
  \<^verbatim>\<open>ws && clusterSelection\<close> and by nothing else. Where the selection input exists, the
  call returns with the page unchanged exactly when no socket has been created yet or
  the selection text is empty; whether a selection is pending plays no role.
\<close>

theorem submit_noop_iff:
  assumes "doc s ''cluster-input'' = Some e"
  shows "submitClusterSelection s = (Normal (), s) \<longleftrightarrow> ws s = None \<or> elem_value e = []"
proof (cases "ws s = None \<or> elem_value e = []")
  case True
  with assms show ?thesis
    by (auto simp add: submitClusterSelection_def getElementById_def Let_def split: option.splits)
next
  case False
  then obtain w where w: "ws s = Some w" and nonempty: "elem_value e \<noteq> []" by auto
  have "submitClusterSelection s \<noteq> (Normal (), s)"
  proof
    assume eq: "submitClusterSelection s = (Normal (), s)"
    show False
    proof (cases "readyState w")
      case CONNECTING
      with assms w nonempty eq show False
        by (simp add: submitClusterSelection_def getElementById_def Let_def)
    next
      case OPEN
      with assms w nonempty eq show False
        apply (simp add: submitClusterSelection_def getElementById_def setElement_def Let_def
            split: option.splits)
        apply (drule arg_cong [where f = ws])
        apply simp
        apply (drule arg_cong [where f = sent])
        apply simp
        done
    next
      case CLOSING
      with assms w nonempty eq show False
        apply (simp add: submitClusterSelection_def getElementById_def setElement_def Let_def
            split: option.splits if_splits)
        apply (drule arg_cong [where f = "\<lambda>s. map_option elem_value (doc s ''cluster-input'')"])
        apply simp
        done
    next
      case CLOSED
      with assms w nonempty eq show False
        apply (simp add: submitClusterSelection_def getElementById_def setElement_def Let_def
            split: option.splits if_splits)
        apply (drule arg_cong [where f = "\<lambda>s. map_option elem_value (doc s ''cluster-input'')"])
        apply simp
        done
    qed
  qed
  with False show ?thesis by simp
qed

theorem submit_noop_iff_witness:
  "doc (type_into ''cluster-input'' (js ''1'') (load script_document)) ''cluster-input''
     = Some (plain_element\<lparr>elem_value := js ''1''\<rparr>) \<and>
   ws (type_into ''cluster-input'' (js ''1'') (load script_document)) = None \<and>
   submitClusterSelection (type_into ''cluster-input'' (js ''1'') (load script_document))
     = (Normal (), type_into ''cluster-input'' (js ''1'') (load script_document))"
proof -
  let ?s = "type_into ''cluster-input'' (js ''1'') (load script_document)"
  have a: "doc ?s ''cluster-input'' = Some (plain_element\<lparr>elem_value := js ''1''\<rparr>)"
    and b: "ws ?s = None"
    by (simp_all add: type_into_def updateElement_def load_def script_document_def)
  show ?thesis using submit_noop_iff [OF a] a b by simp
qed

theorem submit_outside_prompt_counterexample:
  "\<not> pending_selection (type_into ''cluster-input'' (js ''1'') planning_page) \<and>
   outbound (type_into ''cluster-input'' (js ''1'') planning_page) = [] \<and>
   outbound (snd (submitClusterSelection (type_into ''cluster-input'' (js ''1'') planning_page)))
     = [js ''1'']"
  by (simp add: run_defs)

text \<open>
  Claim C4, as the code has it. Right after a line that begins with the sentinel is
  delivered, the final content is the trimmed rest of that line and the progress log is
  as before the delivery. The handler keeps running for later messages: each later line
  without the sentinel at its start is appended to the log and leaves the final content
  alone, and a later line with the sentinel at its start replaces the final content.
\<close>

theorem terminal_then_later_messages:
  assumes "handler_installed s" and "startsWith L SENTINEL"
    and "list_all (\<lambda>m. \<not> startsWith m SENTINEL) ms"
  shows "currentMarkdownContent (deliver mp (L # ms) s) = trim (drop (length SENTINEL) L) \<and>
         progress_log (deliver mp (L # ms) s) = progress_log s @ ms \<and>
         (startsWith L' SENTINEL \<longrightarrow>
            currentMarkdownContent (deliver mp (L # ms @ [L']) s) =
              trim (drop (length SENTINEL) L'))"
proof -
  let ?s = "snd (onmessage mp L s)"
  from assms(1) have inst: "handler_installed ?s" by (simp add: onmessage_installed)
  from assms(1,2) have step: "currentMarkdownContent ?s = trim (drop (length SENTINEL) L)"
    "progress_log ?s = progress_log s"
    by (simp_all add: handler_installed_def onmessage_content onmessage_log)
  from deliver_nonterminal [OF inst assms(3), of mp] step
  have "currentMarkdownContent (deliver mp (L # ms) s) = trim (drop (length SENTINEL) L)"
    and "progress_log (deliver mp (L # ms) s) = progress_log s @ ms"
    by simp_all
  moreover have "currentMarkdownContent (deliver mp (L # ms @ [L']) s) =
              trim (drop (length SENTINEL) L')" if "startsWith L' SENTINEL"
  proof -
    have "deliver mp (L # ms @ [L']) s = snd (onmessage mp L' (deliver mp (L # ms) s))"
      using deliver_append [of mp "L # ms" "[L']" s] by simp
    with that show ?thesis by (simp add: onmessage_content)
  qed
  ultimately show ?thesis by simp
qed

theorem terminal_then_later_messages_witness:
  "handler_installed planning_page \<and> startsWith terminal_line SENTINEL \<and>
   list_all (\<lambda>m. \<not> startsWith m SENTINEL) [js ''Still working...''] \<and>
   currentMarkdownContent
     (deliver plain_renderer [terminal_line, js ''Still working...''] planning_page)
     = js ''# Paris Trip'' \<and>
   progress_log (deliver plain_renderer [terminal_line, js ''Still working...''] planning_page)
     = [js ''Still working...''] \<and>
   currentMarkdownContent
     (deliver plain_renderer [terminal_line, js ''Still working...'', terminal_line]
        planning_page)
     = js ''# Paris Trip''"
proof -
  have a: "startsWith terminal_line SENTINEL"
    and b: "list_all (\<lambda>m. \<not> startsWith m SENTINEL) [js ''Still working...'']"
    and c: "trim (drop (length SENTINEL) terminal_line) = js ''# Paris Trip''"
    by (simp_all add: terminal_line_def SENTINEL_def js_def trim_def is_whitespace_def)
  show ?thesis
    using terminal_then_later_messages [OF planning_page_installed a b, of plain_renderer
        terminal_line]
      a b c planning_page_installed planning_page_observed
    by simp
qed

theorem later_messages_counterexample:
  "startsWith terminal_line SENTINEL \<and>
   progress_log (deliver plain_renderer [terminal_line] planning_page) = [] \<and>
   progress_log (deliver plain_renderer [terminal_line, js ''Still working...''] planning_page)
     = [js ''Still working...''] \<and>
   currentMarkdownContent (deliver plain_renderer [terminal_line] planning_page)
     = js ''# Paris Trip'' \<and>
   currentMarkdownContent
     (deliver plain_renderer
        [terminal_line, js ''Itinerary generated successfully! # Rome Trip''] planning_page)
     = js ''# Rome Trip''"
  by (simp add: run_defs)

text \<open>
  Claim C5. When the destination or the travel date is empty or blank,
  \<^verbatim>\<open>startPlanning\<close> is rejected on the spot: \<^verbatim>\<open>validateInputs\<close> raises the alert
  that names the first missing field and \<^verbatim>\<open>startPlanning\<close> returns at once. The page is
  otherwise unchanged: no socket is created and nothing is sent.
\<close>

theorem blank_input_rejected:
  assumes "doc s ''destination'' = Some d" and "doc s ''travelDate'' = Some t"
    and "blank (elem_value d) \<or> blank (elem_value t)"
  shows "startPlanning s =
           (Normal (),
            s\<lparr>alerts := alerts s @
                 [if blank (elem_value d) then js ''Please enter a destination''
                  else js ''Please enter a travel date'']\<rparr>) \<and>
         connections (snd (startPlanning s)) = connections s \<and>
         outbound (snd (startPlanning s)) = outbound s"
  using assms
  by (auto simp add: startPlanning_def validateInputs_blank alert_def connections_def outbound_def)

theorem blank_input_rejected_witness:
  "doc (type_into ''travelDate'' (js ''2024-06-01'') (load script_document)) ''destination''
     = Some plain_element \<and>
   doc (type_into ''travelDate'' (js ''2024-06-01'') (load script_document)) ''travelDate''
     = Some (plain_element\<lparr>elem_value := js ''2024-06-01''\<rparr>) \<and>
   blank (elem_value plain_element) \<and>
   alerts (snd (startPlanning (type_into ''travelDate'' (js ''2024-06-01'')
                  (load script_document))))
     = [js ''Please enter a destination''] \<and>
   connections (snd (startPlanning (type_into ''travelDate'' (js ''2024-06-01'')
                  (load script_document)))) = 0"
proof -
  let ?s = "type_into ''travelDate'' (js ''2024-06-01'') (load script_document)"
  have a: "doc ?s ''destination'' = Some plain_element"
    and b: "doc ?s ''travelDate'' = Some (plain_element\<lparr>elem_value := js ''2024-06-01''\<rparr>)"
    and c: "blank (elem_value plain_element)"
    and d: "alerts ?s = []" "connections ?s = 0"
    by (simp_all add: type_into_def updateElement_def load_def script_document_def
        plain_element_def blank_def connections_def)
  from c have e: "blank (elem_value plain_element) \<or>
      blank (elem_value (plain_element\<lparr>elem_value := js ''2024-06-01''\<rparr>))" by simp
  note r = blank_input_rejected [OF a b e]
  from r [THEN conjunct1] c d(1)
  have "alerts (snd (startPlanning ?s)) = [js ''Please enter a destination'']" by simp
  moreover from r [THEN conjunct2, THEN conjunct1] d(2)
  have "connections (snd (startPlanning ?s)) = 0" by simp
  ultimately show ?thesis using a b c by simp
qed

text \<open>
  Claim C6. Whatever the page has been through, a call of \<^verbatim>\<open>startPlanning\<close> that
  passes validation on a document with the four elements returns normally with the
  progress log empty, the final content unset and the selection box hidden, and with
  one more socket, which is still connecting and has sent nothing.
\<close>

theorem start_resets_session:
  assumes "doc s ''destination'' = Some d" and "doc s ''travelDate'' = Some t"
    and "\<not> blank (elem_value d)" and "\<not> blank (elem_value t)"
    and "doc s ''progress'' \<noteq> None" and "doc s ''itinerary'' \<noteq> None"
    and "doc s ''option-selection'' \<noteq> None" and "doc s ''copyButton'' \<noteq> None"
  shows "fst (startPlanning s) = Normal () \<and>
         progress_log (snd (startPlanning s)) = [] \<and>
         currentMarkdownContent (snd (startPlanning s)) = [] \<and>
         \<not> pending_selection (snd (startPlanning s)) \<and>
         ws (snd (startPlanning s)) = Some \<lparr>url = WS_URL, readyState = CONNECTING, sent = []\<rparr> \<and>
         connections (snd (startPlanning s)) = Suc (connections s)"
  using assms
  by (auto simp add: startPlanning_def validateInputs_blank getElementById_def setElement_def
      Let_def progress_log_def pending_selection_def new_WebSocket_def connections_def js_def
      split: option.splits)

theorem start_resets_session_witness:
  "progress_log completed_page = [js ''Searching flights...'', prompt_line] \<and>
   currentMarkdownContent completed_page = js ''# Paris Trip'' \<and>
   pending_selection completed_page \<and>
   fst (startPlanning completed_page) = Normal () \<and>
   progress_log (snd (startPlanning completed_page)) = [] \<and>
   currentMarkdownContent (snd (startPlanning completed_page)) = [] \<and>
   \<not> pending_selection (snd (startPlanning completed_page)) \<and>
   connections (snd (startPlanning completed_page)) = 2"
proof -
  have before: "progress_log completed_page = [js ''Searching flights...'', prompt_line]"
    "currentMarkdownContent completed_page = js ''# Paris Trip''"
    "pending_selection completed_page" "connections completed_page = 1"
    by (simp_all add: run_defs)
  have a: "doc completed_page ''destination'' = Some (plain_element\<lparr>elem_value := js ''Paris''\<rparr>)"
    and b: "doc completed_page ''travelDate'' =
              Some (plain_element\<lparr>elem_value := js ''2024-06-01''\<rparr>)"
    and c: "\<not> blank (elem_value (plain_element\<lparr>elem_value := js ''Paris''\<rparr>))"
    and d: "\<not> blank (elem_value (plain_element\<lparr>elem_value := js ''2024-06-01''\<rparr>))"
    and e: "doc completed_page ''progress'' \<noteq> None" "doc completed_page ''itinerary'' \<noteq> None"
      "doc completed_page ''option-selection'' \<noteq> None"
      "doc completed_page ''copyButton'' \<noteq> None"
    by (simp_all add: run_defs blank_def)
  show ?thesis using start_resets_session [OF a b c d e] before by simp
qed

text \<open>
  Claim C7. A line that contains the prompt text anywhere and does not begin with the
  sentinel shows the selection box and is appended to the progress log.
\<close>

theorem prompt_line_raises_and_logs:
  assumes "handler_installed s" and "includesStr L PROMPT" and "\<not> startsWith L SENTINEL"
  shows "pending_selection (snd (onmessage mp L s)) \<and>
         progress_log (snd (onmessage mp L s)) = progress_log s @ [L]"
  using assms by (simp add: handler_installed_def onmessage_pending onmessage_log)

theorem prompt_line_raises_and_logs_witness:
  "handler_installed planning_page \<and>
   includesStr (js ''note: Please review the options and select the correct option now'') PROMPT \<and>
   \<not> startsWith (js ''note: Please review the options and select the correct option now'')
       SENTINEL \<and>
   pending_selection
     (snd (onmessage plain_renderer
        (js ''note: Please review the options and select the correct option now'')
        planning_page)) \<and>
   progress_log
     (snd (onmessage plain_renderer
        (js ''note: Please review the options and select the correct option now'')
        planning_page))
     = [js ''note: Please review the options and select the correct option now'']"
proof -
  let ?L = "js ''note: Please review the options and select the correct option now''"
  have a: "includesStr ?L PROMPT" and b: "\<not> startsWith ?L SENTINEL"
    by (simp_all add: SENTINEL_def PROMPT_def js_def)
  show ?thesis
    using prompt_line_raises_and_logs [OF planning_page_installed a b, of plain_renderer]
      a b planning_page_installed planning_page_observed
    by simp
qed

text \<open>
  Claim C8. A line that neither begins with the sentinel nor contains the prompt text
  is appended to the progress log as it is, the handler returns normally and changes
  nothing else. No line at all makes the handler dereference a missing element or
  touch a socket.
\<close>

theorem plain_line_is_progress:
  assumes "doc s ''progress'' = Some p"
    and "\<not> startsWith L SENTINEL" and "\<not> includesStr L PROMPT"
  shows "onmessage mp L s =
           (Normal (),
            s\<lparr>doc := (doc s)(''progress'' \<mapsto>
                 p\<lparr>children := children p @
                      [\<lparr>className = js ''progress-message'', textContent = L\<rparr>]\<rparr>)\<rparr>) \<and>
         progress_log (snd (onmessage mp L s)) = progress_log s @ [L] \<and>
         (\<forall>m. fst (onmessage mp m s) \<noteq> Throw TypeError \<and>
              ws (snd (onmessage mp m s)) = ws s \<and>
              previous (snd (onmessage mp m s)) = previous s)"
proof -
  have "(\<lambda>j. if j = ''progress'' then map_option f (doc s j) else doc s j) =
        (doc s)(''progress'' \<mapsto> f p)" for f
    using assms(1) by (auto simp: fun_eq_iff)
  then have "onmessage mp L s =
           (Normal (),
            s\<lparr>doc := (doc s)(''progress'' \<mapsto>
                 p\<lparr>children := children p @
                      [\<lparr>className = js ''progress-message'', textContent = L\<rparr>]\<rparr>)\<rparr>)"
    using assms(2,3) by (simp add: onmessage_def updateElement_def Let_def)
  moreover have "progress_log (snd (onmessage mp L s)) = progress_log s @ [L]"
    using assms by (simp add: onmessage_log)
  ultimately show ?thesis
    by (simp add: onmessage_sockets onmessage_completion)
qed

theorem plain_line_is_progress_witness:
  "doc planning_page ''progress'' = Some plain_element \<and>
   \<not> startsWith (js ''Searching flights...'') SENTINEL \<and>
   \<not> includesStr (js ''Searching flights...'') PROMPT \<and>
   fst (onmessage plain_renderer (js ''Searching flights...'') planning_page) = Normal () \<and>
   progress_log (snd (onmessage plain_renderer (js ''Searching flights...'') planning_page))
     = [js ''Searching flights...'']"
proof -
  let ?L = "js ''Searching flights...''"
  have p: "doc planning_page ''progress'' = Some plain_element"
    by (simp add: run_defs)
  have a: "\<not> startsWith ?L SENTINEL" and b: "\<not> includesStr ?L PROMPT"
    by (simp_all add: SENTINEL_def PROMPT_def js_def)
  note r = plain_line_is_progress [OF p a b, of plain_renderer]
  from r [THEN conjunct1]
  have "fst (onmessage plain_renderer ?L planning_page) = Normal ()" by simp
  moreover from r [THEN conjunct2, THEN conjunct1] planning_page_observed
  have "progress_log (snd (onmessage plain_renderer ?L planning_page)) = [?L]" by simp
  ultimately show ?thesis using p a b by simp
qed

text \<open>
  Claim C9. What the handler makes of a line is decided by the text of the line alone.
  For each line there are a flag, an optional payload and a list of appended lines such
  that, in every state in which the handler is installed and with every renderer, the
  selection box is shown after the call iff the flag holds or it was shown before, the
  final content is the payload if there is one and unchanged otherwise, and the log
  grows by exactly the appended lines.
\<close>

theorem classification_depends_on_text_only:
  "\<exists>raised payload appended. \<forall>mp s. handler_installed s \<longrightarrow>
     (pending_selection (snd (onmessage mp L s)) \<longleftrightarrow> raised \<or> pending_selection s) \<and>
     currentMarkdownContent (snd (onmessage mp L s)) =
       (case payload of None \<Rightarrow> currentMarkdownContent s | Some c \<Rightarrow> c) \<and>
     progress_log (snd (onmessage mp L s)) = progress_log s @ appended"
proof (intro exI allI impI)
  fix mp s
  assume "handler_installed s"
  then show "(pending_selection (snd (onmessage mp L s)) \<longleftrightarrow>
                includesStr L PROMPT \<or> pending_selection s) \<and>
     currentMarkdownContent (snd (onmessage mp L s)) =
       (case (if startsWith L SENTINEL then Some (trim (drop (length SENTINEL) L)) else None) of
          None \<Rightarrow> currentMarkdownContent s | Some c \<Rightarrow> c) \<and>
     progress_log (snd (onmessage mp L s)) =
       progress_log s @ (if startsWith L SENTINEL then [] else [L])"
    by (simp add: handler_installed_def onmessage_pending onmessage_log onmessage_content)
qed

theorem classification_depends_on_text_only_witness:
  "handler_installed planning_page \<and> handler_installed awaiting_page \<and>
   (\<exists>raised payload appended.
      (pending_selection (snd (onmessage plain_renderer terminal_line planning_page))
         \<longleftrightarrow> raised \<or> pending_selection planning_page) \<and>
      (pending_selection (snd (onmessage plain_renderer terminal_line awaiting_page))
         \<longleftrightarrow> raised \<or> pending_selection awaiting_page) \<and>
      currentMarkdownContent (snd (onmessage plain_renderer terminal_line planning_page))
        = (case payload of None \<Rightarrow> currentMarkdownContent planning_page | Some c \<Rightarrow> c) \<and>
      currentMarkdownContent (snd (onmessage plain_renderer terminal_line awaiting_page))
        = (case payload of None \<Rightarrow> currentMarkdownContent awaiting_page | Some c \<Rightarrow> c) \<and>
      progress_log (snd (onmessage plain_renderer terminal_line planning_page))
        = progress_log planning_page @ appended \<and>
      progress_log (snd (onmessage plain_renderer terminal_line awaiting_page))
        = progress_log awaiting_page @ appended)"
proof -
  from classification_depends_on_text_only [of terminal_line]
  obtain raised payload appended where
    *: "\<And>mp s. handler_installed s \<Longrightarrow>
     (pending_selection (snd (onmessage mp terminal_line s)) \<longleftrightarrow> raised \<or> pending_selection s) \<and>
     currentMarkdownContent (snd (onmessage mp terminal_line s)) =
       (case payload of None \<Rightarrow> currentMarkdownContent s | Some c \<Rightarrow> c) \<and>
     progress_log (snd (onmessage mp terminal_line s)) = progress_log s @ appended"
    by blast
  from * [OF planning_page_installed, of plain_renderer]
       * [OF awaiting_page_installed, of plain_renderer]
       planning_page_installed awaiting_page_installed
  show ?thesis by blast
qed

text \<open>
  Claim C10. While the selection input is empty, \<^verbatim>\<open>submitClusterSelection\<close> returns
  with the page unchanged: nothing is sent and the selection box stays as it is, also
  while a selection is pending.
\<close>

theorem empty_selection_dropped:
  assumes "doc s ''cluster-input'' = Some e" and "elem_value e = []"
  shows "submitClusterSelection s = (Normal (), s) \<and>
         outbound (snd (submitClusterSelection s)) = outbound s \<and>
         (pending_selection (snd (submitClusterSelection s)) \<longleftrightarrow> pending_selection s)"
  using assms
  by (simp add: submitClusterSelection_def getElementById_def Let_def split: option.splits)

theorem empty_selection_dropped_witness:
  "pending_selection awaiting_page \<and>
   doc awaiting_page ''cluster-input'' = Some plain_element \<and>
   elem_value plain_element = [] \<and>
   submitClusterSelection awaiting_page = (Normal (), awaiting_page) \<and>
   outbound (snd (submitClusterSelection awaiting_page)) = outbound awaiting_page"
proof -
  have a: "doc awaiting_page ''cluster-input'' = Some plain_element"
    and b: "elem_value plain_element = []"
    and c: "pending_selection awaiting_page"
    by (simp_all add: run_defs)
  show ?thesis using empty_selection_dropped [OF a b] a b c by simp
qed

end
